theory Spec2Isabelle
  imports Complex_Main "HOL-Library.Word"
begin

section \<open>JavaScript strings\<close>

text \<open>
  A JavaScript string is a sequence of UTF-16 code units. The regular expressions of the
  handlers carry no \<open>u\<close> flag, so they work on code units too.
\<close>

type_synonym code_unit = "16 word"
type_synonym jsstring = "code_unit list"

abbreviation LF :: code_unit where "LF \<equiv> 0x000A"
abbreviation SP :: code_unit where "SP \<equiv> 0x0020"

text \<open>An ASCII literal of the source, as code units.\<close>

definition js :: "string \<Rightarrow> jsstring" where
  "js s = map (\<lambda>c. word_of_nat (of_char c)) s"

text \<open>
  The class \<open>\s\<close> of a regular expression and the characters that \<open>trim\<close> strips are
  the same set in ECMAScript: WhiteSpace (TAB, VT, FF, ZWNBSP and the space separators)
  together with LineTerminator (LF, CR, LS, PS).
\<close>

definition is_ws :: "code_unit \<Rightarrow> bool" where
  "is_ws c \<longleftrightarrow>
     c \<in> {0x0009, 0x000A, 0x000B, 0x000C, 0x000D, 0x0020, 0x00A0, 0x1680,
          0x2028, 0x2029, 0x202F, 0x205F, 0x3000, 0xFEFF}
     \<or> (0x2000 \<le> c \<and> c \<le> 0x200A)"

text \<open>\<open>s.trim()\<close>\<close>

definition trim :: "jsstring \<Rightarrow> jsstring" where
  "trim s = rev (dropWhile is_ws (rev (dropWhile is_ws s)))"

text \<open>\<open>s.endsWith(suffix)\<close>\<close>

definition endsWith :: "jsstring \<Rightarrow> jsstring \<Rightarrow> bool" where
  "endsWith s suffix \<longleftrightarrow>
     length suffix \<le> length s \<and> drop (length s - length suffix) s = suffix"

text \<open>\<open>xs.join(sep)\<close> on an array of strings\<close>

fun join :: "jsstring \<Rightarrow> jsstring list \<Rightarrow> jsstring" where
  "join sep [] = []"
| "join sep [x] = x"
| "join sep (x # y # ys) = x @ sep @ join sep (y # ys)"

text \<open>
  \<open>s.toLowerCase()\<close>. An ASCII code unit is mapped on its own: \<open>A\<close> to \<open>Z\<close> go to
  \<open>a\<close> to \<open>z\<close>, every other ASCII unit stays. What a unit beyond ASCII becomes is the
  runtime's Unicode table, which is no part of the repository: it is the parameter
  \<open>unicodeLower\<close>, given the whole string and the position, so that it covers the
  context rule of the final sigma, surrogate pairs and one-to-many mappings.
  The index \<open>i\<close> is always below \<open>length s\<close>.
\<close>

definition asciiLower :: "code_unit \<Rightarrow> code_unit" where
  "asciiLower c = (if 0x41 \<le> c \<and> c \<le> 0x5A then c + 0x20 else c)"

definition lowerAt :: "(jsstring \<Rightarrow> nat \<Rightarrow> jsstring) \<Rightarrow> jsstring \<Rightarrow> nat \<Rightarrow> jsstring" where
  "lowerAt unicodeLower s i =
     (if s ! i < 0x80 then [asciiLower (s ! i)] else unicodeLower s i)"

definition toLowerCase :: "(jsstring \<Rightarrow> nat \<Rightarrow> jsstring) \<Rightarrow> jsstring \<Rightarrow> jsstring" where
  "toLowerCase unicodeLower s = concat (map (lowerAt unicodeLower s) [0..<length s])"

section \<open>Responses and thrown values\<close>

text \<open>\<open>interface APIError { error: string; details?: string }\<close>\<close>

record APIError =
  error :: jsstring
  details :: "jsstring option"

text \<open>
  What the client gets from \<open>NextResponse.json(payload, { status })\<close>: the status (200
  when none is given) and the payload as the client reads it from the JSON text of the
  body, an \<open>APIError\<close> on the left or the success payload on the right. A string comes
  out of that text as it went in.
\<close>

record 'a response =
  status :: nat
  payload :: "APIError + 'a"

text \<open>
  A value caught by a \<open>catch\<close> clause. Both handlers read it only through
  \<open>error instanceof Error ? error.message : "Unknown error"\<close>.
\<close>

datatype thrown = ErrorObj jsstring | NonError

definition thrown_details :: "thrown \<Rightarrow> jsstring" where
  "thrown_details e = (case e of ErrorObj message \<Rightarrow> message | NonError \<Rightarrow> js ''Unknown error'')"

section \<open>The extraction endpoint\<close>

subsection \<open>Cleaning the extracted text\<close>

text \<open>
  \<open>.replace(/\s+/g, " ")\<close>: scanning from the left, each maximal run of whitespace is
  one match and becomes one space; the scan goes on behind the match.
\<close>

function collapse_ws :: "jsstring \<Rightarrow> jsstring" where
  "collapse_ws [] = []"
| "collapse_ws (c # cs) =
     (if is_ws c then SP # collapse_ws (dropWhile is_ws cs)
      else c # collapse_ws cs)"
  by pat_completeness auto
termination
  by (relation "measure length") (auto simp: less_Suc_eq_le length_dropWhile_le)

text \<open>
  \<open>/\n\s*\n/\<close> tried right behind a line feed: \<open>\s*\<close> is greedy and backtracks, so the
  match ends at the last line feed of the whitespace run that follows. The result is the
  number of code units matched behind the first line feed, or \<open>None\<close> when the run holds
  no line feed.
\<close>

definition blank_match :: "jsstring \<Rightarrow> nat option" where
  "blank_match rest =
     (let run = takeWhile is_ws rest in
      if LF \<in> set run
      then Some (length run - length (takeWhile (\<lambda>c. c \<noteq> LF) (rev run)))
      else None)"

text \<open>\<open>.replace(/\n\s*\n/g, "\n\n")\<close>\<close>

fun collapse_blank :: "jsstring \<Rightarrow> jsstring" where
  "collapse_blank [] = []"
| "collapse_blank (c # cs) =
     (if c = LF then
        (case blank_match cs of
           Some n \<Rightarrow> LF # LF # collapse_blank (drop n cs)
         | None \<Rightarrow> c # collapse_blank cs)
      else c # collapse_blank cs)"

text \<open>
  The clean-up chain of the handler:
  \<open>extractedText.replace(/\s+/g, " ").replace(/\n\s*\n/g, "\n\n").trim()\<close>
\<close>

definition cleanup :: "jsstring \<Rightarrow> jsstring" where
  "cleanup s = trim (collapse_blank (collapse_ws s))"

subsection \<open>The handler\<close>

type_synonym bytes = "8 word list"

text \<open>The two members of the uploaded \<open>File\<close> that the handler reads.\<close>

record File =
  name :: jsstring
  arrayBuffer :: bytes

text \<open>
  \<open>extractText\<close> of unpdf resolves to an object whose \<open>text\<close> is an array of pages or one
  merged string; the handler accepts both.
\<close>

datatype pdf_text = Pages "jsstring list" | Merged jsstring

text \<open>
  The libraries behind the handler: the Unicode case table of the runtime, \<open>extractText\<close>
  of unpdf and \<open>mammoth.extractRawText\<close> (its result's \<open>value\<close>). A parser either throws
  (\<open>Inl\<close>) or returns (\<open>Inr\<close>).
\<close>

record extract_env =
  unicodeLower :: "jsstring \<Rightarrow> nat \<Rightarrow> jsstring"
  extractText :: "bytes \<Rightarrow> thrown + pdf_text"
  extractRawText :: "bytes \<Rightarrow> thrown + jsstring"

definition legacy_doc_message :: jsstring where
  "legacy_doc_message = js ''Legacy .doc format is not supported. Please convert to .docx or PDF.''"

definition unsupported_message :: jsstring where
  "unsupported_message =
     js ''Unsupported file format. Please upload a PDF or Word document (.docx).''"

definition empty_or_corrupt_message :: jsstring where
  "empty_or_corrupt_message =
     js ''Could not extract text from the file. The file may be empty or corrupted.''"

text \<open>The \<open>catch\<close> clause of the extraction handler.\<close>

definition extract_failed :: "thrown \<Rightarrow> jsstring response" where
  "extract_failed e =
     \<lparr>status = 500,
      payload = Inl \<lparr>error = js ''Failed to extract text from file'',
                  details = Some (thrown_details e)\<rparr>\<rparr>"

text \<open>From the clean-up to the end of the \<open>try\<close> block; the payload \<open>{ text }\<close> is its text.\<close>

definition extract_finish :: "jsstring \<Rightarrow> jsstring response" where
  "extract_finish raw =
     (let extractedText = cleanup raw in
      if extractedText = []
      then \<lparr>status = 400, payload = Inl \<lparr>error = empty_or_corrupt_message, details = None\<rparr>\<rparr>
      else \<lparr>status = 200, payload = Inr extractedText\<rparr>)"

text \<open>
  \<open>POST\<close> of \<open>/api/extract\<close>. Its input is what \<open>request.formData()\<close> and
  \<open>formData.get("file") as File | null\<close> give: a thrown value when the body is no form
  data, otherwise the file or \<open>null\<close>.
\<close>

definition POST_extract :: "extract_env \<Rightarrow> thrown + File option \<Rightarrow> jsstring response" where
  "POST_extract env formData =
     (case formData of
        Inl e \<Rightarrow> extract_failed e
      | Inr None \<Rightarrow>
          \<lparr>status = 400, payload = Inl \<lparr>error = js ''No file provided'', details = None\<rparr>\<rparr>
      | Inr (Some f) \<Rightarrow>
          (let fileName = toLowerCase (unicodeLower env) (name f);
               buffer = arrayBuffer f
           in
             if endsWith fileName (js ''.pdf'') then
               (case extractText env buffer of
                  Inl e \<Rightarrow> extract_failed e
                | Inr (Pages text) \<Rightarrow> extract_finish (join [LF] text)
                | Inr (Merged text) \<Rightarrow> extract_finish text)
             else if endsWith fileName (js ''.docx'') then
               (case extractRawText env buffer of
                  Inl e \<Rightarrow> extract_failed e
                | Inr v \<Rightarrow> extract_finish v)
             else if endsWith fileName (js ''.doc'') then
               \<lparr>status = 400, payload = Inl \<lparr>error = legacy_doc_message, details = None\<rparr>\<rparr>
             else
               \<lparr>status = 400, payload = Inl \<lparr>error = unsupported_message, details = None\<rparr>\<rparr>))"

text \<open>The text a page array or a merged string stands for: \<open>Array.isArray(text) ? text.join('\n') : text\<close>.\<close>

definition pdf_string :: "pdf_text \<Rightarrow> jsstring" where
  "pdf_string t = (case t of Pages text \<Rightarrow> join [LF] text | Merged text \<Rightarrow> text)"

section \<open>The analysis endpoint\<close>

text \<open>\<open>interface AnalyzeRequest { resumeText: string; jobDescription?: string }\<close>\<close>

record AnalyzeRequest =
  resumeText :: jsstring
  jobDescription :: "jsstring option"

text \<open>
  A number that \<open>JSON.parse\<close> can give: a finite number other than negative zero, as the
  real number it denotes; negative zero (the literal \<open>-0\<close>); or an infinity, for a
  literal beyond the range of a double such as \<open>1e400\<close>. It never gives \<open>NaN\<close>.
\<close>

datatype jsnumber = Finite real | NegZero | PosInfinity | NegInfinity

text \<open>A value of \<open>JSON.parse\<close>; the members of an object in the order of its properties.\<close>

datatype json =
    JNull
  | JBool bool
  | JNumber jsnumber
  | JString jsstring
  | JArray "json list"
  | JObject "(jsstring \<times> json) list"

text \<open>
  \<open>v.key\<close> for a value \<open>v\<close> other than \<open>null\<close> and for the three keys the handler
  reads (\<open>resumeScore\<close>, \<open>strengths\<close>, \<open>weaknesses\<close>): an object gives its member,
  anything else gives \<open>undefined\<close> (\<open>None\<close>). Reading a member of \<open>null\<close> throws; the
  handler's model treats that case before it calls this function.
\<close>

fun property :: "json \<Rightarrow> jsstring \<Rightarrow> json option" where
  "property (JObject members) key = map_of members key"
| "property _ key = None"

text \<open>\<open>typeof x === "number"\<close> and \<open>Array.isArray(x)\<close>\<close>

fun is_number :: "json option \<Rightarrow> bool" where
  "is_number (Some (JNumber n)) = True"
| "is_number _ = False"

fun isArray :: "json option \<Rightarrow> bool" where
  "isArray (Some (JArray xs)) = True"
| "isArray _ = False"

text \<open>
  The value the client reads from the body that \<open>NextResponse.json\<close> writes for a value
  of \<open>JSON.parse\<close>. The body is \<open>JSON.stringify\<close> of the value: an infinity is written
  as \<open>null\<close> and negative zero as \<open>0\<close>; every other finite number is written so
  that it reads back as the same number; \<open>null\<close>, booleans and strings read back as
  they were; arrays and objects are written member by member, in order.
\<close>

fun stringify_number :: "jsnumber \<Rightarrow> json" where
  "stringify_number (Finite x) = JNumber (Finite x)"
| "stringify_number NegZero = JNumber (Finite 0)"
| "stringify_number PosInfinity = JNull"
| "stringify_number NegInfinity = JNull"

fun serialized :: "json \<Rightarrow> json" where
  "serialized JNull = JNull"
| "serialized (JBool b) = JBool b"
| "serialized (JNumber n) = stringify_number n"
| "serialized (JString s) = JString s"
| "serialized (JArray xs) = JArray (map serialized xs)"
| "serialized (JObject members) = JObject (map (\<lambda>(key, v). (key, serialized v)) members)"

text \<open>A value all of whose numbers are finite and none of which is negative zero.\<close>

fun plain_number :: "jsnumber \<Rightarrow> bool" where
  "plain_number (Finite x) = True"
| "plain_number _ = False"

fun plain :: "json \<Rightarrow> bool" where
  "plain (JNumber n) = plain_number n"
| "plain (JArray xs) = list_all plain xs"
| "plain (JObject members) = list_all (\<lambda>(key, v). plain v) members"
| "plain _ = True"

text \<open>The request sent to \<open>openai.chat.completions.create\<close>.\<close>

record request_message =
  role :: jsstring
  prompt :: jsstring

record completion_params =
  model :: jsstring
  messages :: "request_message list"
  temperature :: real
  max_tokens :: nat

text \<open>The part of the completion that the handler reads: \<open>choices[0]?.message?.content\<close>.\<close>

record reply_message =
  content :: "jsstring option"

record choice =
  message :: "reply_message option"

record completion =
  choices :: "choice list"

definition choice_content :: "completion \<Rightarrow> jsstring option" where
  "choice_content c =
     (case choices c of
        [] \<Rightarrow> None
      | first # _ \<Rightarrow> (case message first of None \<Rightarrow> None | Some m \<Rightarrow> content m))"

text \<open>
  What the handler depends on: the credential in the process environment, the
  constructor of the client (\<open>Some e\<close> when it throws \<open>e\<close>), the completion call,
  \<open>JSON.parse\<close> on a non-empty text (\<open>None\<close> for a \<open>SyntaxError\<close>, whose value the handler
  drops), and the \<open>TypeError\<close> the engine throws when a member of \<open>null\<close> is read.
\<close>

record analyze_env =
  OPENAI_API_KEY :: "jsstring option"
  newOpenAI :: "jsstring option \<Rightarrow> thrown option"
  create :: "completion_params \<Rightarrow> thrown + completion"
  parseNonEmpty :: "jsstring \<Rightarrow> json option"
  nullTypeError :: thrown

text \<open>\<open>JSON.parse\<close>: the empty text is no JSON text.\<close>

definition JSON_parse :: "analyze_env \<Rightarrow> jsstring \<Rightarrow> json option" where
  "JSON_parse env s = (if s = [] then None else parseNonEmpty env s)"

definition lines :: "string list \<Rightarrow> jsstring" where
  "lines ls = join [LF] (map js ls)"

definition buildPrompt :: "jsstring \<Rightarrow> jsstring option \<Rightarrow> jsstring" where
  \<open>buildPrompt resume_text job_description =
     lines [
       ''You are a helpful assistant that analyzes resumes and job descriptions.'',
       '''',
       ''I will provide text for a resume, and optionally a job description.'',
       '''',
       ''Your task is to:'',
       '''',
       ''1. Score the resume between 0 and 100 for job fit.'',
       ''2. List 5 bullet points of the **strengths** of the resume.'',
       ''3. List 5 bullet points of the **weaknesses** or areas to improve.'',
       ''4. If a job description is provided, compute a **match percentage** based on how well the resume aligns with the job.'',
       ''5. Provide concise and clear output in JSON format.'',
       '''',
       ''Output format MUST be exactly:'',
       '''',
       ''{'',
       ''  "resumeScore": <number 0-100>,'',
       ''  "matchPercentage": <number 0-100 or null if no job description provided>,'',
       ''  "strengths": ['',
       ''    "<strength bullet 1>",'',
       ''    "<strength bullet 2>",'',
       ''    "<strength bullet 3>",'',
       ''    "<strength bullet 4>",'',
       ''    "<strength bullet 5>"'',
       ''  ],'',
       ''  "weaknesses": ['',
       ''    "<weakness bullet 1>",'',
       ''    "<weakness bullet 2>",'',
       ''    "<weakness bullet 3>",'',
       ''    "<weakness bullet 4>",'',
       ''    "<weakness bullet 5>"'',
       ''  ]'',
       ''}'',
       '''',
       ''Criteria:'',
       ''- Score should reflect clarity, relevance, keywords, structure, and job description alignment (if provided).'',
       ''- matchPercentage is ONLY computed if a job description is provided, else set it to null.'',
       ''- Strengths should highlight positive aspects of the resume (skills, achievements, clarity).'',
       ''- Weaknesses should highlight suggestions for improvement (missing keywords, unclear formatting, lack of results, etc.)'',
       '''',
       ''Here is the resume text:'',
       '''']
     @ resume_text
     @ lines ['''', '''', ''Here is the job description text (leave blank if none):'', '''']
     @ (case job_description of None \<Rightarrow> [] | Some d \<Rightarrow> d)
     @ lines ['''', '''',
         ''Respond ONLY with valid JSON. Do not include any other text or markdown formatting.'']\<close>

text \<open>The outer \<open>catch\<close> clause of the analysis handler.\<close>

definition analyze_failed :: "thrown \<Rightarrow> json response" where
  "analyze_failed e =
     \<lparr>status = 500,
      payload = Inl \<lparr>error = js ''Failed to analyze resume'',
                  details = Some (thrown_details e)\<rparr>\<rparr>"

definition no_response :: "json response" where
  "no_response =
     \<lparr>status = 500, payload = Inl \<lparr>error = js ''No response from OpenAI'', details = None\<rparr>\<rparr>"

text \<open>
  The handler from the result of the completion call on: the content, \<open>JSON.parse\<close> in
  its own \<open>try\<close>, the check of the structure, and the success response
  \<open>NextResponse.json(analysisResult)\<close>, of which the client reads the serialised value. In the check
  \<open>analysisResult.resumeScore\<close> is read first, which throws when the parsed value is
  \<open>null\<close>; the outer \<open>catch\<close> gets that \<open>TypeError\<close>.
\<close>

definition after_completion ::
  "analyze_env \<Rightarrow> thrown + completion \<Rightarrow> json response" where
  "after_completion env result =
     (case result of
        Inl e \<Rightarrow> analyze_failed e
      | Inr completion \<Rightarrow>
          (case choice_content completion of
             None \<Rightarrow> no_response
           | Some responseContent \<Rightarrow>
               if responseContent = [] then no_response
               else
                 (case JSON_parse env responseContent of
                    None \<Rightarrow>
                      \<lparr>status = 500,
                       payload = Inl \<lparr>error = js ''Failed to parse OpenAI response'',
                                   details = Some responseContent\<rparr>\<rparr>
                  | Some JNull \<Rightarrow> analyze_failed (nullTypeError env)
                  | Some analysisResult \<Rightarrow>
                      if \<not> is_number (property analysisResult (js ''resumeScore''))
                         \<or> \<not> isArray (property analysisResult (js ''strengths''))
                         \<or> \<not> isArray (property analysisResult (js ''weaknesses''))
                      then
                        \<lparr>status = 500,
                         payload = Inl \<lparr>error = js ''Invalid response structure from OpenAI'',
                                     details = Some responseContent\<rparr>\<rparr>
                      else \<lparr>status = 200, payload = Inr (serialized analysisResult)\<rparr>)))"

text \<open>What a run of the handler leaves: the response and the completion calls it made.\<close>

record handled =
  sent :: "json response"
  outbound :: "completion_params list"

text \<open>
  \<open>POST\<close> of \<open>/api/analyze\<close>. Its input is what \<open>request.json()\<close> gives: a thrown value
  when the body is no JSON, otherwise the body, typed as the handler types it.
\<close>

definition POST_analyze :: "analyze_env \<Rightarrow> thrown + AnalyzeRequest \<Rightarrow> handled" where
  "POST_analyze env requestJson =
     (case newOpenAI env (OPENAI_API_KEY env) of
        Some e \<Rightarrow> \<lparr>sent = analyze_failed e, outbound = []\<rparr>
      | None \<Rightarrow>
          (case requestJson of
             Inl e \<Rightarrow> \<lparr>sent = analyze_failed e, outbound = []\<rparr>
           | Inr body \<Rightarrow>
               if resumeText body = [] \<or> length (trim (resumeText body)) = 0
               then
                 \<lparr>sent = \<lparr>status = 400,
                          payload = Inl \<lparr>error = js ''Resume text is required'', details = None\<rparr>\<rparr>,
                  outbound = []\<rparr>
               else
                 (let params =
                        \<lparr>model = js ''gpt-4o-mini'',
                         messages =
                           [\<lparr>role = js ''user'',
                             prompt = buildPrompt (resumeText body) (jobDescription body)\<rparr>],
                         temperature = 3 / 10,
                         max_tokens = 1000\<rparr>
                  in \<lparr>sent = after_completion env (create env params),
                      outbound = [params]\<rparr>)))"

section \<open>A normal form for cleaned text\<close>

text \<open>
  A text is tidy when its only whitespace is the space and no two spaces are neighbours.
\<close>

fun tidy :: "jsstring \<Rightarrow> bool" where
  "tidy [] = True"
| "tidy [c] = (is_ws c \<longrightarrow> c = SP)"
| "tidy (c # d # cs) = ((is_ws c \<longrightarrow> c = SP \<and> \<not> is_ws d) \<and> tidy (d # cs))"

section \<open>Sample environments\<close>

text \<open>
  Parsers that succeed on every file and find whitespace only: two pages of one space each
  for a PDF; two line feeds for a Word document. Units beyond ASCII keep their case.
\<close>

definition blank_pages_env :: extract_env where
  "blank_pages_env =
     \<lparr>unicodeLower = (\<lambda>s i. [s ! i]),
      extractText = (\<lambda>b. Inr (Pages [js '' '', js '' ''])),
      extractRawText = (\<lambda>b. Inr [LF, LF])\<rparr>"

text \<open>
  An environment without the credential: the constructor of the client throws, as the
  client library does when it gets no key.
\<close>

definition missing_key_env :: analyze_env where
  "missing_key_env =
     \<lparr>OPENAI_API_KEY = None,
      newOpenAI = (\<lambda>apiKey. case apiKey of
                     None \<Rightarrow> Some (ErrorObj (js ''The OPENAI_API_KEY environment variable is missing or empty''))
                   | Some k \<Rightarrow> None),
      create = (\<lambda>params. Inl NonError),
      parseNonEmpty = (\<lambda>s. None),
      nullTypeError = ErrorObj (js ''Cannot read properties of null (reading 'resumeScore')'')\<rparr>"

text \<open>
  An environment with a credential and a stubbed model: every completion call returns one
  choice with the given content, and every non-empty text parses to the given result.
\<close>

definition stub_env :: "jsstring option \<Rightarrow> json option \<Rightarrow> analyze_env" where
  "stub_env reply parsed =
     \<lparr>OPENAI_API_KEY = Some (js ''sk-test''),
      newOpenAI = (\<lambda>apiKey. None),
      create = (\<lambda>params. Inr \<lparr>choices = [\<lparr>message = Some \<lparr>content = reply\<rparr>\<rparr>]\<rparr>),
      parseNonEmpty = (\<lambda>s. parsed),
      nullTypeError = ErrorObj (js ''Cannot read properties of null (reading 'resumeScore')'')\<rparr>"

text \<open>
  A request, the completion call the handler makes for it, and a reply that has the three
  checked members but a score beyond 100, a single strength, no weakness and no match
  percentage.
\<close>

definition sample_request :: AnalyzeRequest where
  "sample_request =
     \<lparr>resumeText = js ''Senior engineer, 5 years React, AWS.'', jobDescription = None\<rparr>"

definition sample_params :: completion_params where
  "sample_params =
     \<lparr>model = js ''gpt-4o-mini'',
      messages = [\<lparr>role = js ''user'',
                   prompt = buildPrompt (resumeText sample_request) (jobDescription sample_request)\<rparr>],
      temperature = 3 / 10,
      max_tokens = 1000\<rparr>"

definition unchecked_reply :: jsstring where
  \<open>unchecked_reply =
     js ''{"resumeScore":150,"matchPercentage":null,"strengths":["Clear"],"weaknesses":[]}''\<close>

definition unchecked_result :: json where
  "unchecked_result =
     JObject [(js ''resumeScore'', JNumber (Finite 150)),
              (js ''matchPercentage'', JNull),
              (js ''strengths'', JArray [JString (js ''Clear'')]),
              (js ''weaknesses'', JArray [])]"

text \<open>
  A reply whose score is a literal beyond the range of a double, and the value
  \<open>JSON.parse\<close> makes of it: the score is \<open>Infinity\<close>.
\<close>

definition overflow_reply :: jsstring where
  \<open>overflow_reply =
     js ''{"resumeScore":1e400,"matchPercentage":null,"strengths":[],"weaknesses":[]}''\<close>

definition overflow_result :: json where
  "overflow_result =
     JObject [(js ''resumeScore'', JNumber PosInfinity),
              (js ''matchPercentage'', JNull),
              (js ''strengths'', JArray []),
              (js ''weaknesses'', JArray [])]"

section \<open>Whitespace and the clean-up\<close>

lemma is_ws_LF: "is_ws LF"
  by (simp add: is_ws_def)

lemma is_ws_SP: "is_ws SP"
  by (simp add: is_ws_def)

lemma collapse_ws_ws_is_space:
  "c \<in> set (collapse_ws s) \<Longrightarrow> is_ws c \<Longrightarrow> c = SP"
  by (induction s rule: collapse_ws.induct) (auto split: if_splits)

lemma collapse_ws_no_LF: "LF \<notin> set (collapse_ws s)"
  using collapse_ws_ws_is_space [of LF s] is_ws_LF by auto

lemma collapse_blank_no_LF: "LF \<notin> set t \<Longrightarrow> collapse_blank t = t"
  by (induction t) auto

lemma collapse_ws_head:
  "collapse_ws s = d # ds \<Longrightarrow> is_ws d \<Longrightarrow> \<exists>c cs. s = c # cs \<and> is_ws c"
  by (cases s) (auto split: if_splits)

lemma dropWhile_head: "dropWhile P xs = y # ys \<Longrightarrow> \<not> P y"
  by (metis hd_dropWhile list.discI list.sel(1))

lemma tidy_collapse_ws: "tidy (collapse_ws s)"
proof (induction s rule: collapse_ws.induct)
  case 1
  show ?case by simp
next
  case (2 c cs)
  show ?case
  proof (cases "is_ws c")
    case True
    let ?r = "collapse_ws (dropWhile is_ws cs)"
    have t: "tidy ?r" using 2(1) True by simp
    show ?thesis
    proof (cases ?r)
      case Nil
      with True show ?thesis by simp
    next
      case (Cons d ds)
      have "\<not> is_ws d"
      proof
        assume "is_ws d"
        with Cons obtain e es where "dropWhile is_ws cs = e # es" "is_ws e"
          using collapse_ws_head by blast
        then show False using dropWhile_head by fastforce
      qed
      with True Cons t show ?thesis by simp
    qed
  next
    case False
    have t: "tidy (collapse_ws cs)" using 2(2) False by simp
    from False t show ?thesis by (cases "collapse_ws cs") auto
  qed
qed

lemma tidy_fixed: "tidy t \<Longrightarrow> collapse_ws t = t"
proof (induction t rule: tidy.induct)
  case 1
  show ?case by simp
next
  case (2 c)
  then show ?case by simp
next
  case (3 c d cs)
  then show ?case by auto
qed

lemma tidy_append_left: "tidy (xs @ ys) \<Longrightarrow> tidy xs"
proof (induction xs rule: tidy.induct)
  case 1
  show ?case by simp
next
  case (2 c)
  then show ?case by (cases ys) auto
next
  case (3 c d cs)
  then show ?case by simp
qed

lemma tidy_append_right: "tidy (xs @ ys) \<Longrightarrow> tidy ys"
proof (induction xs)
  case Nil
  then show ?case by simp
next
  case (Cons x xs)
  then show ?case by (cases "xs @ ys") auto
qed

lemma tidy_dropWhile: "tidy xs \<Longrightarrow> tidy (dropWhile P xs)"
  using tidy_append_right [of "takeWhile P xs" "dropWhile P xs"] by simp

lemma rev_dropWhile_rev_prefix:
  "xs = rev (dropWhile P (rev xs)) @ rev (takeWhile P (rev xs))"
  by (metis rev_append rev_rev_ident takeWhile_dropWhile_id)

lemma tidy_trim: "tidy xs \<Longrightarrow> tidy (trim xs)"
  unfolding trim_def
  using tidy_append_left [of "rev (dropWhile is_ws (rev (dropWhile is_ws xs)))"
      "rev (takeWhile is_ws (rev (dropWhile is_ws xs)))"]
    rev_dropWhile_rev_prefix [of "dropWhile is_ws xs" is_ws] tidy_dropWhile [of xs is_ws]
  by simp

lemma dropWhile_idem_prefix:
  assumes "dropWhile P u = u"
  shows "dropWhile P (rev (dropWhile P (rev u))) = rev (dropWhile P (rev u))"
proof (cases "rev (dropWhile P (rev u))")
  case Nil
  show ?thesis unfolding Nil by simp
next
  case (Cons v vs)
  then have "u = (v # vs) @ rev (takeWhile P (rev u))"
    using rev_dropWhile_rev_prefix [of u P] by simp
  then obtain w where u: "u = v # w" by simp
  have "\<not> P v" using assms u by (metis dropWhile_head)
  with Cons show ?thesis by simp
qed

lemma trim_trim: "trim (trim s) = trim s"
proof -
  let ?u = "dropWhile is_ws s"
  have "dropWhile is_ws ?u = ?u" by (simp add: dropWhile_idem)
  then have "dropWhile is_ws (trim s) = trim s"
    unfolding trim_def by (rule dropWhile_idem_prefix)
  then show ?thesis
    by (simp add: trim_def dropWhile_idem)
qed

lemma all_dropWhile: "(\<forall>x\<in>set (dropWhile P xs). P x) \<longleftrightarrow> (\<forall>x\<in>set xs. P x)"
  by (induction xs) auto

lemma trim_empty_iff: "trim s = [] \<longleftrightarrow> (\<forall>c\<in>set s. is_ws c)"
  by (simp add: trim_def dropWhile_eq_Nil_conv all_dropWhile)

lemma collapse_ws_all_ws:
  "(\<forall>c\<in>set (collapse_ws s). is_ws c) \<longleftrightarrow> (\<forall>c\<in>set s. is_ws c)"
proof (induction s rule: collapse_ws.induct)
  case 1
  show ?case by simp
next
  case (2 c cs)
  show ?case
  proof (cases "is_ws c")
    case True
    have "(\<forall>x\<in>set cs. is_ws x) \<longleftrightarrow> (\<forall>x\<in>set (dropWhile is_ws cs). is_ws x)"
      by (simp add: all_dropWhile)
    with True 2(1) show ?thesis by (simp add: is_ws_SP)
  next
    case False
    then show ?thesis by simp
  qed
qed

lemma cleanup_eq: "cleanup s = trim (collapse_ws s)"
  by (simp add: cleanup_def collapse_blank_no_LF collapse_ws_no_LF)

lemma cleanup_empty_iff: "cleanup s = [] \<longleftrightarrow> (\<forall>c\<in>set s. is_ws c)"
  by (simp add: cleanup_eq trim_empty_iff collapse_ws_all_ws)

lemma set_trim: "set (trim s) \<subseteq> set s"
proof -
  have "set (trim s) \<subseteq> set (dropWhile is_ws s)"
    unfolding trim_def using set_dropWhileD [of _ is_ws "rev (dropWhile is_ws s)"] by auto
  also have "\<dots> \<subseteq> set s"
    using set_dropWhileD [of _ is_ws s] by auto
  finally show ?thesis .
qed

lemma cleanup_no_LF: "LF \<notin> set (cleanup s)"
  using set_trim [of "collapse_ws s"] collapse_ws_no_LF [of s] by (auto simp: cleanup_eq)

section \<open>Suffixes and lower case\<close>

lemma endsWith_appendI: "s = p @ suf \<Longrightarrow> endsWith s suf"
  unfolding endsWith_def by simp

lemma endsWith_takeD: "endsWith s suf \<Longrightarrow> s = take (length s - length suf) s @ suf"
  unfolding endsWith_def by (metis append_take_drop_id)

lemma endsWith_iff: "endsWith s suf \<longleftrightarrow> (\<exists>p. s = p @ suf)"
  using endsWith_appendI endsWith_takeD by blast


lemma endsWith_last: "endsWith s suf \<Longrightarrow> suf \<noteq> [] \<Longrightarrow> last s = last suf"
  using endsWith_takeD [of s suf] last_appendR [of suf "take (length s - length suf) s"] by simp

lemma ascii_of_asciiLower: "asciiLower c < 0x80 \<Longrightarrow> c < 0x80"
  using le_less_trans [of c "0x5A" "0x80"]
  by (auto simp: asciiLower_def split: if_splits)

lemma upt_split: "[0..<m + n] = [0..<m] @ map (\<lambda>j. m + j) [0..<n]"
  by (induction n) simp_all


lemma lowerAt_ascii_tail:
  assumes "\<forall>c\<in>set x. c < 0x80"
  shows "map (\<lambda>j. lowerAt u (p @ x) (length p + j)) [0..<length x]
           = map (\<lambda>j. [asciiLower (x ! j)]) [0..<length x]"
  using assms by (simp add: lowerAt_def)

lemma map_asciiLower_nth: "map (\<lambda>j. asciiLower (x ! j)) [0..<length x] = map asciiLower x"
proof -
  have "map asciiLower x = map asciiLower (map ((!) x) [0..<length x])"
    by (simp only: map_nth)
  also have "\<dots> = map (\<lambda>j. asciiLower (x ! j)) [0..<length x]"
    by (simp only: map_map comp_def)
  finally show ?thesis by (rule sym)
qed

lemma toLowerCase_append_ascii:
  assumes "\<forall>c\<in>set x. c < 0x80"
  shows "toLowerCase u (p @ x) =
           concat (map (lowerAt u (p @ x)) [0..<length p]) @ map asciiLower x"
proof -
  have "concat (map (lowerAt u (p @ x)) (map (\<lambda>j. length p + j) [0..<length x]))
          = concat (map (\<lambda>j. lowerAt u (p @ x) (length p + j)) [0..<length x])"
    by (simp only: map_map comp_def)
  also have "\<dots> = concat (map (\<lambda>j. [asciiLower (x ! j)]) [0..<length x])"
    by (simp only: lowerAt_ascii_tail [OF assms])
  also have "\<dots> = map (\<lambda>j. asciiLower (x ! j)) [0..<length x]"
    by (rule concat_map_singleton)
  also have "\<dots> = map asciiLower x"
    by (rule map_asciiLower_nth)
  finally have tail: "concat (map (lowerAt u (p @ x)) (map (\<lambda>j. length p + j) [0..<length x]))
      = map asciiLower x" .
  have "toLowerCase u (p @ x)
      = concat (map (lowerAt u (p @ x)) ([0..<length p] @ map (\<lambda>j. length p + j) [0..<length x]))"
    by (simp only: toLowerCase_def length_append upt_split)
  also have "\<dots> = concat (map (lowerAt u (p @ x)) [0..<length p]) @ map asciiLower x"
    by (simp only: map_append concat_append tail)
  finally show ?thesis .
qed

lemma endsWith_toLowerCase:
  assumes e: "endsWith (map asciiLower s) suf" and a: "\<forall>c\<in>set suf. c < 0x80"
  shows "endsWith (toLowerCase u s) suf"
proof -
  let ?k = "length s - length suf"
  let ?x = "drop ?k s"
  from e have m: "map asciiLower ?x = suf"
    by (simp add: endsWith_def drop_map)
  have "\<forall>c\<in>set ?x. c < 0x80"
  proof
    fix c
    assume "c \<in> set ?x"
    then have "asciiLower c \<in> set (map asciiLower ?x)" by simp
    with m a have "asciiLower c < 0x80" by simp
    then show "c < 0x80" by (rule ascii_of_asciiLower)
  qed
  then have "toLowerCase u (take ?k s @ ?x)
      = concat (map (lowerAt u (take ?k s @ ?x)) [0..<length (take ?k s)]) @ map asciiLower ?x"
    by (rule toLowerCase_append_ascii)
  then have "toLowerCase u s = concat (map (lowerAt u s) [0..<length (take ?k s)]) @ suf"
    by (simp only: append_take_drop_id m)
  then have "\<exists>p. toLowerCase u s = p @ suf" ..
  then show ?thesis
    by (simp only: endsWith_iff)
qed

lemma endsWith_map: "endsWith s suf \<Longrightarrow> endsWith (map g s) (map g suf)"
  by (auto simp: endsWith_iff)

lemma suffix_literals:
  "last (js ''.pdf'') = 0x66" "last (js ''.docx'') = 0x78" "last (js ''.doc'') = 0x63"
  "js ''.pdf'' \<noteq> []" "js ''.docx'' \<noteq> []" "js ''.doc'' \<noteq> []"
  "\<forall>c\<in>set (js ''.pdf''). c < 0x80" "\<forall>c\<in>set (js ''.docx''). c < 0x80"
  "\<forall>c\<in>set (js ''.doc''). c < 0x80"
  "map asciiLower (js ''.doc'') = js ''.doc''"
  by (simp_all add: js_def asciiLower_def)

lemma not_both_pdf_docx: "endsWith s (js ''.docx'') \<Longrightarrow> \<not> endsWith s (js ''.pdf'')"
  using endsWith_last [of s "js ''.docx''"] endsWith_last [of s "js ''.pdf''"]
  by (auto simp: suffix_literals)

lemma not_both_pdf_doc: "endsWith s (js ''.doc'') \<Longrightarrow> \<not> endsWith s (js ''.pdf'')"
  using endsWith_last [of s "js ''.doc''"] endsWith_last [of s "js ''.pdf''"]
  by (auto simp: suffix_literals)

lemma not_both_docx_doc: "endsWith s (js ''.doc'') \<Longrightarrow> \<not> endsWith s (js ''.docx'')"
  using endsWith_last [of s "js ''.doc''"] endsWith_last [of s "js ''.docx''"]
  by (auto simp: suffix_literals)

lemma route_pdf:
  assumes "endsWith (map asciiLower (name f)) (js ''.pdf'')"
  shows "POST_extract env (Inr (Some f)) =
           (case extractText env (arrayBuffer f) of
              Inl e \<Rightarrow> extract_failed e
            | Inr t \<Rightarrow> extract_finish (pdf_string t))"
proof -
  have "endsWith (toLowerCase (unicodeLower env) (name f)) (js ''.pdf'')"
    using assms suffix_literals(7) by (rule endsWith_toLowerCase)
  then show ?thesis
    by (simp add: POST_extract_def pdf_string_def split: sum.splits pdf_text.splits)
qed

lemma route_docx:
  assumes "endsWith (map asciiLower (name f)) (js ''.docx'')"
  shows "POST_extract env (Inr (Some f)) =
           (case extractRawText env (arrayBuffer f) of
              Inl e \<Rightarrow> extract_failed e
            | Inr v \<Rightarrow> extract_finish v)"
proof -
  have "endsWith (toLowerCase (unicodeLower env) (name f)) (js ''.docx'')"
    using assms suffix_literals(8) by (rule endsWith_toLowerCase)
  then show ?thesis
    using not_both_pdf_docx by (simp add: POST_extract_def)
qed

lemma route_doc:
  assumes "endsWith (map asciiLower (name f)) (js ''.doc'')"
  shows "POST_extract env (Inr (Some f)) =
           \<lparr>status = 400, payload = Inl \<lparr>error = legacy_doc_message, details = None\<rparr>\<rparr>"
proof -
  have "endsWith (toLowerCase (unicodeLower env) (name f)) (js ''.doc'')"
    using assms suffix_literals(9) by (rule endsWith_toLowerCase)
  then show ?thesis
    using not_both_pdf_doc not_both_docx_doc by (simp add: POST_extract_def)
qed

lemma messages_differ: "legacy_doc_message \<noteq> unsupported_message"
  by (simp add: legacy_doc_message_def unsupported_message_def js_def)

section \<open>The extraction endpoint: claims\<close>

text \<open>
  Claim C5. The clean-up is said to collapse each run of whitespace to one space, to
  collapse several blank lines to exactly one blank line, and to trim. The first
  replacement already turns every line feed into a space, so the second replacement never
  finds a line feed (\<open>cleanup_eq\<close>, \<open>cleanup_no_LF\<close>): blank lines do not survive.
  On the text \<open>Skills\<close>, four line feeds, \<open>Python\<close> the clean-up gives
  \<open>Skills Python\<close>, not the two words one blank line apart.
\<close>

theorem cleanup_loses_blank_lines:
  "cleanup (js ''Skills'' @ [LF, LF, LF, LF] @ js ''Python'') = js ''Skills Python''
   \<and> cleanup (js ''Skills'' @ [LF, LF, LF, LF] @ js ''Python'')
       \<noteq> js ''Skills'' @ [LF, LF] @ js ''Python''"
  by (simp add: cleanup_def trim_def is_ws_def js_def)

text \<open>
  Claim C6. The clean-up is idempotent: for every text, cleaning the cleaned text changes
  nothing.
\<close>

theorem cleanup_idempotent: "cleanup (cleanup s) = cleanup s"
proof -
  have "tidy (cleanup s)"
    by (simp add: cleanup_eq tidy_trim tidy_collapse_ws)
  then have "collapse_ws (cleanup s) = cleanup s"
    by (rule tidy_fixed)
  then have "cleanup (cleanup s) = trim (cleanup s)"
    by (simp add: cleanup_eq)
  also have "\<dots> = cleanup s"
    by (simp add: cleanup_eq trim_trim)
  finally show ?thesis .
qed

text \<open>
  Claim C7. A file whose declared name ends in \<open>.doc\<close> gets status 400 and the message
  about the legacy format, whatever its bytes and whatever the parsers would do, and that
  message is not the one for other unsupported formats. A name that ends in \<open>.doc\<close>
  cannot end in \<open>.docx\<close>, so that part of the claim needs no hypothesis.
\<close>

theorem legacy_doc_rejected:
  assumes "endsWith (name f) (js ''.doc'')"
  shows "POST_extract env (Inr (Some f)) =
           \<lparr>status = 400, payload = Inl \<lparr>error = legacy_doc_message, details = None\<rparr>\<rparr>
         \<and> legacy_doc_message \<noteq> unsupported_message"
proof -
  have "endsWith (map asciiLower (name f)) (map asciiLower (js ''.doc''))"
    using assms by (rule endsWith_map)
  then have "endsWith (map asciiLower (name f)) (js ''.doc'')"
    by (simp only: suffix_literals)
  then show ?thesis
    using route_doc messages_differ by simp
qed

theorem legacy_doc_rejected_witness:
  "endsWith (name \<lparr>name = js ''resume.doc'', arrayBuffer = [0xD0, 0xCF, 0x11]\<rparr>) (js ''.doc'')
   \<and> POST_extract blank_pages_env
         (Inr (Some \<lparr>name = js ''resume.doc'', arrayBuffer = [0xD0, 0xCF, 0x11]\<rparr>)) =
         \<lparr>status = 400, payload = Inl \<lparr>error = legacy_doc_message, details = None\<rparr>\<rparr>
   \<and> legacy_doc_message \<noteq> unsupported_message"
proof -
  have h: "endsWith (name \<lparr>name = js ''resume.doc'', arrayBuffer = [0xD0, 0xCF, 0x11]\<rparr>)
             (js ''.doc'')"
    by (simp add: endsWith_def js_def)
  show ?thesis
    using h legacy_doc_rejected [OF h, of blank_pages_env] by simp
qed

text \<open>
  Claim C8. For a file named \<open>.pdf\<close> or \<open>.docx\<close> (in any letter case) whose parser
  returns a text with no character other than whitespace, the response is no success
  payload: it is status 400 with the error that the file may be empty or corrupted.
\<close>

theorem blank_text_rejected:
  assumes "(endsWith (map asciiLower (name f)) (js ''.pdf'')
              \<and> extractText env (arrayBuffer f) = Inr t \<and> pdf_string t = raw)
           \<or> (endsWith (map asciiLower (name f)) (js ''.docx'')
              \<and> extractRawText env (arrayBuffer f) = Inr raw)"
    and "\<forall>c\<in>set raw. is_ws c"
  shows "POST_extract env (Inr (Some f)) =
           \<lparr>status = 400, payload = Inl \<lparr>error = empty_or_corrupt_message, details = None\<rparr>\<rparr>"
proof -
  have fin: "extract_finish raw =
      \<lparr>status = 400, payload = Inl \<lparr>error = empty_or_corrupt_message, details = None\<rparr>\<rparr>"
    using assms(2) by (simp add: extract_finish_def cleanup_empty_iff)
  from assms(1) show ?thesis
  proof
    assume "endsWith (map asciiLower (name f)) (js ''.pdf'')
              \<and> extractText env (arrayBuffer f) = Inr t \<and> pdf_string t = raw"
    then show ?thesis using fin by (simp add: route_pdf)
  next
    assume "endsWith (map asciiLower (name f)) (js ''.docx'')
              \<and> extractRawText env (arrayBuffer f) = Inr raw"
    then show ?thesis using fin by (simp add: route_docx)
  qed
qed

theorem blank_text_rejected_witness:
  "endsWith (map asciiLower (name \<lparr>name = js ''scan.pdf'', arrayBuffer = [0x25, 0x50]\<rparr>))
     (js ''.pdf'')
   \<and> extractText blank_pages_env (arrayBuffer \<lparr>name = js ''scan.pdf'', arrayBuffer = [0x25, 0x50]\<rparr>)
       = Inr (Pages [js '' '', js '' ''])
   \<and> pdf_string (Pages [js '' '', js '' '']) = [SP, LF, SP]
   \<and> list_all is_ws [SP, LF, SP]
   \<and> POST_extract blank_pages_env
         (Inr (Some \<lparr>name = js ''scan.pdf'', arrayBuffer = [0x25, 0x50]\<rparr>)) =
         \<lparr>status = 400, payload = Inl \<lparr>error = empty_or_corrupt_message, details = None\<rparr>\<rparr>"
proof -
  let ?f = "\<lparr>name = js ''scan.pdf'', arrayBuffer = [0x25, 0x50]\<rparr>"
  have h1: "endsWith (map asciiLower (name ?f)) (js ''.pdf'')"
    by (simp add: endsWith_def js_def asciiLower_def)
  have h2: "extractText blank_pages_env (arrayBuffer ?f) = Inr (Pages [js '' '', js '' ''])"
    by (simp add: blank_pages_env_def)
  have h3: "pdf_string (Pages [js '' '', js '' '']) = [SP, LF, SP]"
    by (simp add: pdf_string_def js_def)
  have h4: "\<forall>c\<in>set [SP, LF, SP]. is_ws c"
    by (simp add: is_ws_def)
  have "POST_extract blank_pages_env (Inr (Some ?f)) =
         \<lparr>status = 400, payload = Inl \<lparr>error = empty_or_corrupt_message, details = None\<rparr>\<rparr>"
    using h1 h2 h3 h4
    by (intro blank_text_rejected [where t = "Pages [js '' '', js '' '']" and raw = "[SP, LF, SP]"])
      simp_all
  with h1 h2 h3 h4 show ?thesis by simp
qed

text \<open>
  Claim C9. The dispatch does not depend on the letter case of the declared name: a name
  that ends in \<open>.pdf\<close> up to the case of its ASCII letters goes to the PDF extractor,
  one that ends so in \<open>.docx\<close> goes to the Word extractor, and one that ends so in
  \<open>.doc\<close> gets the rejection of the legacy format.
\<close>

theorem dispatch_ignores_case:
  "(endsWith (map asciiLower (name f)) (js ''.pdf'') \<longrightarrow>
      POST_extract env (Inr (Some f)) =
        (case extractText env (arrayBuffer f) of
           Inl e \<Rightarrow> extract_failed e
         | Inr t \<Rightarrow> extract_finish (pdf_string t)))
   \<and> (endsWith (map asciiLower (name f)) (js ''.docx'') \<longrightarrow>
      POST_extract env (Inr (Some f)) =
        (case extractRawText env (arrayBuffer f) of
           Inl e \<Rightarrow> extract_failed e
         | Inr v \<Rightarrow> extract_finish v))
   \<and> (endsWith (map asciiLower (name f)) (js ''.doc'') \<longrightarrow>
      POST_extract env (Inr (Some f)) =
        \<lparr>status = 400, payload = Inl \<lparr>error = legacy_doc_message, details = None\<rparr>\<rparr>)"
  using route_pdf route_docx route_doc by simp

theorem dispatch_ignores_case_witness:
  "endsWith (map asciiLower (name \<lparr>name = js ''CV.PdF'', arrayBuffer = []\<rparr>)) (js ''.pdf'')
   \<and> POST_extract blank_pages_env (Inr (Some \<lparr>name = js ''CV.PdF'', arrayBuffer = []\<rparr>)) =
       extract_finish [SP, LF, SP]
   \<and> endsWith (map asciiLower (name \<lparr>name = js ''CV.DOCX'', arrayBuffer = []\<rparr>)) (js ''.docx'')
   \<and> POST_extract blank_pages_env (Inr (Some \<lparr>name = js ''CV.DOCX'', arrayBuffer = []\<rparr>)) =
       extract_finish [LF, LF]
   \<and> endsWith (map asciiLower (name \<lparr>name = js ''CV.Doc'', arrayBuffer = []\<rparr>)) (js ''.doc'')
   \<and> POST_extract blank_pages_env (Inr (Some \<lparr>name = js ''CV.Doc'', arrayBuffer = []\<rparr>)) =
       \<lparr>status = 400, payload = Inl \<lparr>error = legacy_doc_message, details = None\<rparr>\<rparr>"
proof -
  have h1: "endsWith (map asciiLower (name \<lparr>name = js ''CV.PdF'', arrayBuffer = []\<rparr>))
              (js ''.pdf'')"
    by (simp add: endsWith_def js_def asciiLower_def)
  have h2: "endsWith (map asciiLower (name \<lparr>name = js ''CV.DOCX'', arrayBuffer = []\<rparr>))
              (js ''.docx'')"
    by (simp add: endsWith_def js_def asciiLower_def)
  have h3: "endsWith (map asciiLower (name \<lparr>name = js ''CV.Doc'', arrayBuffer = []\<rparr>))
              (js ''.doc'')"
    by (simp add: endsWith_def js_def asciiLower_def)
  show ?thesis
    using h1 h2 h3
      dispatch_ignores_case [of "\<lparr>name = js ''CV.PdF'', arrayBuffer = []\<rparr>" blank_pages_env]
      dispatch_ignores_case [of "\<lparr>name = js ''CV.DOCX'', arrayBuffer = []\<rparr>" blank_pages_env]
      dispatch_ignores_case [of "\<lparr>name = js ''CV.Doc'', arrayBuffer = []\<rparr>" blank_pages_env]
    by (simp add: blank_pages_env_def pdf_string_def js_def)
qed

section \<open>The analysis endpoint: claims\<close>

text \<open>
  When the handler has made a completion call, its response is what the rest of the
  handler makes of the result of that call.
\<close>

lemma call_made:
  "outbound (POST_analyze env rq) = [p] \<Longrightarrow>
     sent (POST_analyze env rq) = after_completion env (create env p)"
  by (auto simp: POST_analyze_def Let_def split: option.splits sum.splits if_splits)

text \<open>
  The handler makes a completion call exactly when the client could be constructed and
  \<open>resumeText\<close> holds a character that is no whitespace; the call is then the one
  built from the request.
\<close>

lemma completion_called_iff:
  "outbound (POST_analyze env (Inr body)) = [p] \<longleftrightarrow>
     newOpenAI env (OPENAI_API_KEY env) = None
     \<and> \<not> list_all is_ws (resumeText body)
     \<and> p = \<lparr>model = js ''gpt-4o-mini'',
              messages = [\<lparr>role = js ''user'',
                           prompt = buildPrompt (resumeText body) (jobDescription body)\<rparr>],
              temperature = 3 / 10,
              max_tokens = 1000\<rparr>"
proof -
  have "trim (resumeText body) = [] \<longleftrightarrow> list_all is_ws (resumeText body)"
    by (simp add: trim_empty_iff list_all_iff)
  moreover have "resumeText body = [] \<Longrightarrow> list_all is_ws (resumeText body)"
    by simp
  ultimately show ?thesis
    by (auto simp: POST_analyze_def Let_def split: option.splits)
qed

lemma parse_nonempty: "JSON_parse env raw = Some v \<Longrightarrow> raw \<noteq> []"
  by (auto simp: JSON_parse_def split: if_splits)

lemma after_valid:
  assumes "choice_content c = Some raw" and "JSON_parse env raw = Some v"
    and "property v (js ''resumeScore'') = Some (JNumber n)"
    and "property v (js ''strengths'') = Some (JArray ss)"
    and "property v (js ''weaknesses'') = Some (JArray ws)"
  shows "after_completion env (Inr c) = \<lparr>status = 200, payload = Inr (serialized v)\<rparr>"
  using assms parse_nonempty [OF assms(2)]
  by (cases v) (simp_all add: after_completion_def)

lemma after_unparseable:
  assumes "choice_content c = Some raw" and "raw \<noteq> []" and "JSON_parse env raw = None"
  shows "after_completion env (Inr c) =
           \<lparr>status = 500,
            payload = Inl \<lparr>error = js ''Failed to parse OpenAI response'', details = Some raw\<rparr>\<rparr>"
  using assms by (simp add: after_completion_def)

lemma after_invalid:
  assumes "choice_content c = Some raw" and "JSON_parse env raw = Some v" and "v \<noteq> JNull"
    and "\<not> is_number (property v (js ''resumeScore''))
         \<or> \<not> isArray (property v (js ''strengths''))
         \<or> \<not> isArray (property v (js ''weaknesses''))"
  shows "after_completion env (Inr c) =
           \<lparr>status = 500,
            payload = Inl \<lparr>error = js ''Invalid response structure from OpenAI'',
                          details = Some raw\<rparr>\<rparr>"
  using assms parse_nonempty [OF assms(2)]
  by (cases v) (simp_all add: after_completion_def)

lemma after_null:
  assumes "choice_content c = Some raw" and "JSON_parse env raw = Some JNull"
  shows "after_completion env (Inr c) = analyze_failed (nullTypeError env)"
  using assms parse_nonempty [OF assms(2)]
  by (simp add: after_completion_def)

lemma sample_call:
  "outbound (POST_analyze (stub_env reply parsed) (Inr sample_request)) = [sample_params]"
  by (simp add: POST_analyze_def stub_env_def sample_request_def sample_params_def
      trim_def is_ws_def js_def)

text \<open>
  A reply that parses to a value other than \<open>null\<close> and fails the check of the structure
  is reported with status 500 and the raw content in \<open>details\<close>.
\<close>

lemma invalid_structure_reported:
  assumes "outbound (POST_analyze env (Inr body)) = [p]"
    and "create env p = Inr c"
    and "choice_content c = Some raw"
    and "JSON_parse env raw = Some v"
    and "v \<noteq> JNull"
    and "\<not> is_number (property v (js ''resumeScore''))
         \<or> \<not> isArray (property v (js ''strengths''))
         \<or> \<not> isArray (property v (js ''weaknesses''))"
  shows "sent (POST_analyze env (Inr body)) =
           \<lparr>status = 500,
            payload = Inl \<lparr>error = js ''Invalid response structure from OpenAI'',
                          details = Some raw\<rparr>\<rparr>"
proof -
  have "sent (POST_analyze env (Inr body)) = after_completion env (Inr c)"
    using call_made [OF assms(1)] assms(2) by simp
  also have "\<dots> = \<lparr>status = 500,
      payload = Inl \<lparr>error = js ''Invalid response structure from OpenAI'',
                    details = Some raw\<rparr>\<rparr>"
    using assms(3-6) by (rule after_invalid)
  finally show ?thesis .
qed

text \<open>
  Claim C1, as amended. When the construction of the client does not throw and the body
  of the request parses, a \<open>resumeText\<close> that is empty or holds whitespace only gets
  status 400 with the error \<open>Resume text is required\<close>, and the handler makes no
  completion call.
\<close>

theorem blank_resume_rejected:
  assumes "newOpenAI env (OPENAI_API_KEY env) = None"
    and "\<forall>c\<in>set (resumeText body). is_ws c"
  shows "POST_analyze env (Inr body) =
           \<lparr>sent = \<lparr>status = 400,
                    payload = Inl \<lparr>error = js ''Resume text is required'', details = None\<rparr>\<rparr>,
            outbound = []\<rparr>"
proof -
  from assms(2) have "trim (resumeText body) = []"
    by (simp only: trim_empty_iff)
  with assms(1) show ?thesis
    by (simp add: POST_analyze_def)
qed

theorem blank_resume_rejected_witness:
  "newOpenAI (stub_env None None) (OPENAI_API_KEY (stub_env None None)) = None
   \<and> list_all is_ws (resumeText \<lparr>resumeText = [SP, LF, SP], jobDescription = None\<rparr>)
   \<and> POST_analyze (stub_env None None)
         (Inr \<lparr>resumeText = [SP, LF, SP], jobDescription = None\<rparr>) =
         \<lparr>sent = \<lparr>status = 400,
                  payload = Inl \<lparr>error = js ''Resume text is required'', details = None\<rparr>\<rparr>,
          outbound = []\<rparr>"
proof -
  have h1: "newOpenAI (stub_env None None) (OPENAI_API_KEY (stub_env None None)) = None"
    by (simp add: stub_env_def)
  have h2: "\<forall>c\<in>set (resumeText \<lparr>resumeText = [SP, LF, SP], jobDescription = None\<rparr>). is_ws c"
    by (simp add: is_ws_def)
  show ?thesis
    using h1 h2 blank_resume_rejected [OF h1 h2] by simp
qed

text \<open>
  Claim C1, as stated, fails: the client is constructed before the body is read, so
  without the credential an empty \<open>resumeText\<close> gets status 500 from the outer
  \<open>catch\<close>, not status 400.
\<close>

theorem blank_resume_without_credential:
  "resumeText \<lparr>resumeText = [], jobDescription = None\<rparr> = []
   \<and> sent (POST_analyze missing_key_env (Inr \<lparr>resumeText = [], jobDescription = None\<rparr>)) =
       \<lparr>status = 500,
        payload = Inl \<lparr>error = js ''Failed to analyze resume'',
                      details = Some (js ''The OPENAI_API_KEY environment variable is missing or empty'')\<rparr>\<rparr>
   \<and> status (sent (POST_analyze missing_key_env (Inr \<lparr>resumeText = [], jobDescription = None\<rparr>)))
       \<noteq> 400"
  by (simp add: POST_analyze_def missing_key_env_def analyze_failed_def thrown_details_def)

text \<open>
  A value whose numbers are all finite, and none negative zero, is read by the client as
  it was.
\<close>

lemma plain_stringify_number: "plain_number n \<Longrightarrow> stringify_number n = JNumber n"
  by (cases n) simp_all

lemma plain_serialized: "plain v \<Longrightarrow> serialized v = v"
proof (induction v rule: serialized.induct)
  case (3 n)
  then show ?case by (simp add: plain_stringify_number)
next
  case (5 xs)
  then have "map serialized xs = xs"
    by (intro map_idI) (simp add: list_all_iff)
  then show ?case by simp
next
  case (6 members)
  have "map (\<lambda>(key, v). (key, serialized v)) members = members"
  proof (rule map_idI)
    fix m
    assume m: "m \<in> set members"
    obtain key v where kv: "m = (key, v)" by (cases m)
    with m 6(2) have "plain v" by (auto simp: list_all_iff)
    with 6(1) m kv have "serialized v = v" by simp
    with kv show "(case m of (key, v) \<Rightarrow> (key, serialized v)) = m" by simp
  qed
  then show ?case by simp
qed simp_all

text \<open>
  Claim C2, as amended. For a request with a non-empty \<open>resumeText\<close> for which the
  handler calls the model, when the reply's content parses to a value with a number as
  \<open>resumeScore\<close> and arrays as \<open>strengths\<close> and \<open>weaknesses\<close>, the response is status
  200 and the client reads the serialisation of that very value: nothing is clamped,
  rounded or checked, neither a range nor the length of an array. When every number of
  the value is finite and none is negative zero, the client reads exactly the parsed
  value, and whatever \<open>matchPercentage\<close> holds, \<open>null\<close> included, arrives as it came.
\<close>

theorem parsed_result_reaches_client:
  assumes "resumeText body \<noteq> []"
    and "outbound (POST_analyze env (Inr body)) = [p]"
    and "create env p = Inr c"
    and "choice_content c = Some raw"
    and "JSON_parse env raw = Some v"
    and "property v (js ''resumeScore'') = Some (JNumber n)"
    and "property v (js ''strengths'') = Some (JArray ss)"
    and "property v (js ''weaknesses'') = Some (JArray ws)"
  shows "sent (POST_analyze env (Inr body)) = \<lparr>status = 200, payload = Inr (serialized v)\<rparr>
         \<and> (plain v \<longrightarrow>
              sent (POST_analyze env (Inr body)) = \<lparr>status = 200, payload = Inr v\<rparr>)"
proof -
  have "sent (POST_analyze env (Inr body)) = after_completion env (Inr c)"
    using call_made [OF assms(2)] assms(3) by simp
  also have "\<dots> = \<lparr>status = 200, payload = Inr (serialized v)\<rparr>"
    using assms(4-8) by (rule after_valid)
  finally have "sent (POST_analyze env (Inr body)) =
      \<lparr>status = 200, payload = Inr (serialized v)\<rparr>" .
  then show ?thesis
    by (simp add: plain_serialized)
qed

theorem parsed_result_reaches_client_witness:
  "resumeText sample_request \<noteq> []
   \<and> outbound (POST_analyze (stub_env (Some unchecked_reply) (Some unchecked_result))
        (Inr sample_request)) = [sample_params]
   \<and> create (stub_env (Some unchecked_reply) (Some unchecked_result)) sample_params =
       Inr \<lparr>choices = [\<lparr>message = Some \<lparr>content = Some unchecked_reply\<rparr>\<rparr>]\<rparr>
   \<and> choice_content \<lparr>choices = [\<lparr>message = Some \<lparr>content = Some unchecked_reply\<rparr>\<rparr>]\<rparr> =
       Some unchecked_reply
   \<and> JSON_parse (stub_env (Some unchecked_reply) (Some unchecked_result)) unchecked_reply =
       Some unchecked_result
   \<and> property unchecked_result (js ''resumeScore'') = Some (JNumber (Finite 150))
   \<and> property unchecked_result (js ''strengths'') = Some (JArray [JString (js ''Clear'')])
   \<and> property unchecked_result (js ''weaknesses'') = Some (JArray [])
   \<and> property unchecked_result (js ''matchPercentage'') = Some JNull
   \<and> plain unchecked_result
   \<and> serialized unchecked_result = unchecked_result
   \<and> sent (POST_analyze (stub_env (Some unchecked_reply) (Some unchecked_result))
        (Inr sample_request)) = \<lparr>status = 200, payload = Inr unchecked_result\<rparr>"
proof -
  let ?env = "stub_env (Some unchecked_reply) (Some unchecked_result)"
  let ?c = "\<lparr>choices = [\<lparr>message = Some \<lparr>content = Some unchecked_reply\<rparr>\<rparr>]\<rparr>"
  have h1: "resumeText sample_request \<noteq> []"
    by (simp add: sample_request_def js_def)
  have h2: "outbound (POST_analyze ?env (Inr sample_request)) = [sample_params]"
    by (rule sample_call)
  have h3: "create ?env sample_params = Inr ?c"
    by (simp add: stub_env_def)
  have h4: "choice_content ?c = Some unchecked_reply"
    by (simp add: choice_content_def)
  have h5: "JSON_parse ?env unchecked_reply = Some unchecked_result"
    by (simp add: JSON_parse_def stub_env_def unchecked_reply_def js_def)
  have h6: "property unchecked_result (js ''resumeScore'') = Some (JNumber (Finite 150))"
    by (simp add: unchecked_result_def js_def)
  have h7: "property unchecked_result (js ''strengths'') = Some (JArray [JString (js ''Clear'')])"
    by (simp add: unchecked_result_def js_def)
  have h8: "property unchecked_result (js ''weaknesses'') = Some (JArray [])"
    by (simp add: unchecked_result_def js_def)
  have h9: "property unchecked_result (js ''matchPercentage'') = Some JNull"
    by (simp add: unchecked_result_def js_def)
  have h10: "plain unchecked_result"
    by (simp add: unchecked_result_def)
  have h11: "serialized unchecked_result = unchecked_result"
    by (simp add: unchecked_result_def)
  have "sent (POST_analyze ?env (Inr sample_request)) =
      \<lparr>status = 200, payload = Inr unchecked_result\<rparr>"
    using parsed_result_reaches_client [OF h1 h2 h3 h4 h5 h6 h7 h8] h10 by blast
  with h1 h2 h3 h4 h5 h6 h7 h8 h9 h10 h11 show ?thesis by simp
qed

text \<open>
  Claim C2, as stated, fails: the literal \<open>1e400\<close> parses to \<open>Infinity\<close>, which is a
  number for the check of the structure, and the body of the response holds \<open>null\<close>
  in its place. The client does not read the parsed value.
\<close>

theorem overflowing_score_arrives_null:
  "resumeText sample_request \<noteq> []
   \<and> create (stub_env (Some overflow_reply) (Some overflow_result)) sample_params =
       Inr \<lparr>choices = [\<lparr>message = Some \<lparr>content = Some overflow_reply\<rparr>\<rparr>]\<rparr>
   \<and> JSON_parse (stub_env (Some overflow_reply) (Some overflow_result)) overflow_reply =
       Some overflow_result
   \<and> property overflow_result (js ''resumeScore'') = Some (JNumber PosInfinity)
   \<and> property overflow_result (js ''strengths'') = Some (JArray [])
   \<and> property overflow_result (js ''weaknesses'') = Some (JArray [])
   \<and> sent (POST_analyze (stub_env (Some overflow_reply) (Some overflow_result))
        (Inr sample_request)) =
       \<lparr>status = 200,
        payload = Inr (JObject [(js ''resumeScore'', JNull),
                                (js ''matchPercentage'', JNull),
                                (js ''strengths'', JArray []),
                                (js ''weaknesses'', JArray [])])\<rparr>
   \<and> payload (sent (POST_analyze (stub_env (Some overflow_reply) (Some overflow_result))
        (Inr sample_request))) \<noteq> Inr overflow_result"
proof -
  let ?env = "stub_env (Some overflow_reply) (Some overflow_result)"
  have "sent (POST_analyze ?env (Inr sample_request)) =
      after_completion ?env (create ?env sample_params)"
    by (rule call_made) (rule sample_call)
  then show ?thesis
    by (simp add: stub_env_def JSON_parse_def after_completion_def choice_content_def
        overflow_reply_def overflow_result_def sample_request_def js_def)
qed

text \<open>
  Claim C3. A reply whose content parses as JSON but has no number as \<open>resumeScore\<close>
  is said to get status 500 with the raw content in \<open>details\<close>. The content \<open>null\<close>
  parses, to \<open>null\<close>; reading \<open>resumeScore\<close> of it throws, and the outer \<open>catch\<close>
  answers with the message of that \<open>TypeError\<close> in \<open>details\<close> instead of the raw
  content. Every other parsed value is reported as claimed
  (\<open>invalid_structure_reported\<close>).
\<close>

theorem null_reply_misreported:
  "create (stub_env (Some (js ''null'')) (Some JNull)) sample_params =
     Inr \<lparr>choices = [\<lparr>message = Some \<lparr>content = Some (js ''null'')\<rparr>\<rparr>]\<rparr>
   \<and> JSON_parse (stub_env (Some (js ''null'')) (Some JNull)) (js ''null'') = Some JNull
   \<and> sent (POST_analyze (stub_env (Some (js ''null'')) (Some JNull)) (Inr sample_request)) =
       \<lparr>status = 500,
        payload = Inl \<lparr>error = js ''Failed to analyze resume'',
                      details = Some (js ''Cannot read properties of null (reading 'resumeScore')'')\<rparr>\<rparr>
   \<and> js ''Cannot read properties of null (reading 'resumeScore')'' \<noteq> js ''null''"
proof -
  let ?env = "stub_env (Some (js ''null'')) (Some JNull)"
  have "sent (POST_analyze ?env (Inr sample_request)) =
      after_completion ?env (create ?env sample_params)"
    by (rule call_made) (rule sample_call)
  then show ?thesis
    by (simp add: stub_env_def JSON_parse_def after_completion_def choice_content_def
        analyze_failed_def thrown_details_def js_def)
qed

text \<open>
  Claim C4, as amended. A reply whose content is not empty and does not parse as JSON
  gets status 500 with the error \<open>Failed to parse OpenAI response\<close> and the raw content
  in \<open>details\<close>.
\<close>

theorem unparseable_reply_reported:
  assumes "outbound (POST_analyze env (Inr body)) = [p]"
    and "create env p = Inr c"
    and "choice_content c = Some raw"
    and "raw \<noteq> []"
    and "JSON_parse env raw = None"
  shows "sent (POST_analyze env (Inr body)) =
           \<lparr>status = 500,
            payload = Inl \<lparr>error = js ''Failed to parse OpenAI response'', details = Some raw\<rparr>\<rparr>"
proof -
  have "sent (POST_analyze env (Inr body)) = after_completion env (Inr c)"
    using call_made [OF assms(1)] assms(2) by simp
  also have "\<dots> = \<lparr>status = 500,
      payload = Inl \<lparr>error = js ''Failed to parse OpenAI response'', details = Some raw\<rparr>\<rparr>"
    using assms(3-5) by (rule after_unparseable)
  finally show ?thesis .
qed

theorem unparseable_reply_reported_witness:
  "outbound (POST_analyze (stub_env (Some (js ''Sure! Here is the analysis'')) None)
     (Inr sample_request)) = [sample_params]
   \<and> create (stub_env (Some (js ''Sure! Here is the analysis'')) None) sample_params =
       Inr \<lparr>choices = [\<lparr>message = Some \<lparr>content = Some (js ''Sure! Here is the analysis'')\<rparr>\<rparr>]\<rparr>
   \<and> choice_content
         \<lparr>choices = [\<lparr>message = Some \<lparr>content = Some (js ''Sure! Here is the analysis'')\<rparr>\<rparr>]\<rparr> =
       Some (js ''Sure! Here is the analysis'')
   \<and> js ''Sure! Here is the analysis'' \<noteq> []
   \<and> JSON_parse (stub_env (Some (js ''Sure! Here is the analysis'')) None)
         (js ''Sure! Here is the analysis'') = None
   \<and> sent (POST_analyze (stub_env (Some (js ''Sure! Here is the analysis'')) None)
         (Inr sample_request)) =
       \<lparr>status = 500,
        payload = Inl \<lparr>error = js ''Failed to parse OpenAI response'',
                      details = Some (js ''Sure! Here is the analysis'')\<rparr>\<rparr>"
proof -
  let ?raw = "js ''Sure! Here is the analysis''"
  let ?env = "stub_env (Some ?raw) None"
  let ?c = "\<lparr>choices = [\<lparr>message = Some \<lparr>content = Some ?raw\<rparr>\<rparr>]\<rparr>"
  have h1: "outbound (POST_analyze ?env (Inr sample_request)) = [sample_params]"
    by (rule sample_call)
  have h2: "create ?env sample_params = Inr ?c"
    by (simp add: stub_env_def)
  have h3: "choice_content ?c = Some ?raw"
    by (simp add: choice_content_def)
  have h4: "?raw \<noteq> []"
    by (simp add: js_def)
  have h5: "JSON_parse ?env ?raw = None"
    by (simp add: JSON_parse_def stub_env_def)
  have "sent (POST_analyze ?env (Inr sample_request)) =
      \<lparr>status = 500,
       payload = Inl \<lparr>error = js ''Failed to parse OpenAI response'', details = Some ?raw\<rparr>\<rparr>"
    using h1 h2 h3 h4 h5 by (rule unparseable_reply_reported)
  with h1 h2 h3 h4 h5 show ?thesis by simp
qed

text \<open>
  Claim C4, as stated, fails for the empty content: it does not parse as JSON, but the
  handler takes it for a missing reply and answers with status 500 and no \<open>details\<close>.
\<close>

theorem empty_reply_has_no_details:
  "create (stub_env (Some []) None) sample_params =
     Inr \<lparr>choices = [\<lparr>message = Some \<lparr>content = Some []\<rparr>\<rparr>]\<rparr>
   \<and> JSON_parse (stub_env (Some []) None) [] = None
   \<and> sent (POST_analyze (stub_env (Some []) None) (Inr sample_request)) =
       \<lparr>status = 500,
        payload = Inl \<lparr>error = js ''No response from OpenAI'', details = None\<rparr>\<rparr>
   \<and> details \<lparr>error = js ''No response from OpenAI'', details = None\<rparr> \<noteq> Some []"
proof -
  have "sent (POST_analyze (stub_env (Some []) None) (Inr sample_request)) =
      after_completion (stub_env (Some []) None) (create (stub_env (Some []) None) sample_params)"
    by (rule call_made) (rule sample_call)
  then show ?thesis
    by (simp add: stub_env_def JSON_parse_def after_completion_def choice_content_def
        no_response_def)
qed

text \<open>
  Claim C10. The client is constructed before the body of the request is read or checked:
  when the construction throws, every request, whatever \<open>request.json()\<close> gives and
  whatever \<open>resumeText\<close> holds, gets status 500 with the error of the outer \<open>catch\<close> and
  the message of the thrown value, and no completion call is made.
\<close>

theorem client_failure_before_validation:
  assumes "newOpenAI env (OPENAI_API_KEY env) = Some e"
  shows "POST_analyze env rq =
           \<lparr>sent = \<lparr>status = 500,
                    payload = Inl \<lparr>error = js ''Failed to analyze resume'',
                                  details = Some (thrown_details e)\<rparr>\<rparr>,
            outbound = []\<rparr>"
  using assms by (simp add: POST_analyze_def analyze_failed_def)

theorem client_failure_before_validation_witness:
  "newOpenAI missing_key_env (OPENAI_API_KEY missing_key_env) =
     Some (ErrorObj (js ''The OPENAI_API_KEY environment variable is missing or empty''))
   \<and> POST_analyze missing_key_env (Inr \<lparr>resumeText = [SP, SP], jobDescription = None\<rparr>) =
       \<lparr>sent = \<lparr>status = 500,
                payload = Inl \<lparr>error = js ''Failed to analyze resume'',
                              details = Some (thrown_details (ErrorObj
                                (js ''The OPENAI_API_KEY environment variable is missing or empty'')))\<rparr>\<rparr>,
        outbound = []\<rparr>"
proof -
  have h: "newOpenAI missing_key_env (OPENAI_API_KEY missing_key_env) =
      Some (ErrorObj (js ''The OPENAI_API_KEY environment variable is missing or empty''))"
    by (simp add: missing_key_env_def)
  show ?thesis
    using h client_failure_before_validation [OF h] by simp
qed

end
